theory Spec2Isabelle
  imports Complex_Main "HOL-Library.Word" "HOL-Library.Sublist"
begin

section \<open>JavaScript values\<close>

text \<open>
  A JavaScript string is a sequence of UTF-16 code units, and \<open>length\<close> counts code
  units. String constants of the scripts that are plain ASCII are written through
  \<open>S\<close>; other code units are given by number.
\<close>

type_synonym jschar = "16 word"
type_synonym jsstring = "jschar list"

definition S :: "string \<Rightarrow> jsstring" where
  "S cs = map (\<lambda>c. of_nat (of_char c)) cs"

text \<open>
  The code units that \<open>String.prototype.trim\<close> strips and that the regular
  expression class \<open>\s\<close> matches: ECMAScript's WhiteSpace (TAB, VT, FF, SP, NBSP,
  ZWNBSP and the Unicode space separators) and LineTerminator (LF, CR, LS, PS).
\<close>

definition isWhiteSpace :: "jschar \<Rightarrow> bool" where
  "isWhiteSpace c \<longleftrightarrow>
     c = 0x9 \<or> c = 0xA \<or> c = 0xB \<or> c = 0xC \<or> c = 0xD \<or> c = 0x20 \<or> c = 0xA0 \<or>
     c = 0x1680 \<or> (0x2000 \<le> c \<and> c \<le> 0x200A) \<or> c = 0x2028 \<or> c = 0x2029 \<or>
     c = 0x202F \<or> c = 0x205F \<or> c = 0x3000 \<or> c = 0xFEFF"

definition trim :: "jsstring \<Rightarrow> jsstring" where
  "trim s = rev (dropWhile isWhiteSpace (rev (dropWhile isWhiteSpace s)))"

text \<open>
  A JavaScript number: a finite value, an infinity or NaN. Finite values are taken as
  exact rationals (a decimal literal of the scripts stands for itself); the rounding of
  double arithmetic is not modelled. Every comparison with NaN is false.
\<close>

datatype jsnum = NaN | NegInf | Fin rat | PosInf

fun js_lt :: "jsnum \<Rightarrow> jsnum \<Rightarrow> bool" where
  "js_lt NaN _ = False"
| "js_lt _ NaN = False"
| "js_lt (Fin a) (Fin b) = (a < b)"
| "js_lt NegInf NegInf = False"
| "js_lt NegInf _ = True"
| "js_lt _ NegInf = False"
| "js_lt PosInf _ = False"
| "js_lt (Fin _) PosInf = True"

definition js_gt :: "jsnum \<Rightarrow> jsnum \<Rightarrow> bool" where
  "js_gt a b = js_lt b a"

fun js_le :: "jsnum \<Rightarrow> jsnum \<Rightarrow> bool" where
  "js_le NaN _ = False"
| "js_le _ NaN = False"
| "js_le a b = (a = b \<or> js_lt a b)"

text \<open>
  A value read from a parsed JSON object or from an object literal, as far as the
  scripts look at it: \<open>undefined\<close> for a missing property, \<open>null\<close>, a boolean, a
  number or a string. \<open>truthy\<close> is ECMAScript's ToBoolean.
\<close>

datatype jsval = JUndefined | JNull | JBool bool | JNum jsnum | JStr jsstring

fun truthy :: "jsval \<Rightarrow> bool" where
  "truthy JUndefined = False"
| "truthy JNull = False"
| "truthy (JBool b) = b"
| "truthy (JNum NaN) = False"
| "truthy (JNum (Fin q)) = (q \<noteq> 0)"
| "truthy (JNum _) = True"
| "truthy (JStr s) = (s \<noteq> [])"

text \<open>\<open>a || b\<close>: the first operand when it is truthy, the second otherwise.\<close>

definition js_or :: "jsval \<Rightarrow> jsval \<Rightarrow> jsval" where
  "js_or a b = (if truthy a then a else b)"

section \<open>Measurement analysis (parametres.js)\<close>

record optimal_range =
  rmin :: jsnum
  rmax :: jsnum

record plante =
  nom :: jsstring
  pH_optimal :: optimal_range
  ec_optimal :: optimal_range
  ppm_optimal :: optimal_range
  temperature_optimal :: optimal_range

definition mk_range :: "rat \<Rightarrow> rat \<Rightarrow> optimal_range" where
  "mk_range lo hi = \<lparr>rmin = Fin lo, rmax = Fin hi\<rparr>"

definition mk_plante :: "jsstring \<Rightarrow> optimal_range \<Rightarrow> optimal_range \<Rightarrow> optimal_range \<Rightarrow> optimal_range \<Rightarrow> plante" where
  "mk_plante n ph ec ppm t =
     \<lparr>nom = n, pH_optimal = ph, ec_optimal = ec, ppm_optimal = ppm, temperature_optimal = t\<rparr>"

text \<open>\<open>PLANT_DATABASE\<close>, in the order of the object literal.\<close>

definition PLANT_DATABASE :: "(jsstring \<times> plante) list" where
  "PLANT_DATABASE =
    [(S ''basilic'', mk_plante (S ''Basilic'')
        (mk_range (11/2) (13/2)) (mk_range 1 (8/5)) (mk_range 500 800) (mk_range 20 25)),
     (S ''laitue'', mk_plante (S ''Laitue'')
        (mk_range (11/2) (13/2)) (mk_range (4/5) (6/5)) (mk_range 400 600) (mk_range 16 20)),
     (S ''tomate'', mk_plante (S ''Tomate'')
        (mk_range (11/2) (13/2)) (mk_range 2 5) (mk_range 1000 2500) (mk_range 18 24)),
     (S ''fraisier'', mk_plante (S ''Fraisier'')
        (mk_range (11/2) (13/2)) (mk_range (9/5) (11/5)) (mk_range 900 1100) (mk_range 18 22)),
     (S ''concombre'', mk_plante (S ''Concombre'')
        (mk_range (11/2) 6) (mk_range (17/10) (5/2)) (mk_range 850 1250) (mk_range 20 25)),
     (S ''poivron'', mk_plante (S ''Poivron'')
        (mk_range (29/5) (63/10)) (mk_range 2 3) (mk_range 1000 1500) (mk_range 20 25)),
     (S ''epinard'', mk_plante (0xC9 # S ''pinard'')
        (mk_range (11/2) (33/5)) (mk_range (9/5) (23/10)) (mk_range 900 1150) (mk_range 15 20))]"

record mesure =
  systemeNom :: jsstring
  planteType :: jsstring
  tailleBac :: jsnum
  nombrePlantes :: jsnum
  phMesure :: jsnum
  oxygeneMesure :: jsnum
  temperatureEau :: jsnum
  m_notes :: jsstring
  dateMesure :: jsstring

datatype alerte_type = success | warning | critical

text \<open>
  The titles of the alerts and the recommendations are fixed texts of the script (with
  accented letters); each is named by a constructor. A recommendation that interpolates
  a difference carries the two operands of the subtraction; the rendering by
  \<open>toFixed\<close> and the interpolated description of an alert are not modelled.
\<close>

datatype alerte_titre =
    pH_Trop_Bas | pH_Trop_Eleve | pH_Optimal
  | Oxygene_Insuffisant | Oxygene_Eleve | Oxygene_Optimal
  | Temperature_Trop_Basse | Temperature_Trop_Elevee | Temperature_Optimale

record alerte =
  a_type :: alerte_type
  titre :: alerte_titre
  parametre :: jsstring

datatype recommandation =
    Augmenter_pH jsnum jsnum
  | Diminuer_pH jsnum jsnum
  | Augmenter_oxygenation
  | Surveiller_oxygenation
  | Augmenter_temperature
  | Refroidir_eau

datatype statut = st_optimal | st_alerte | st_critique

record analyse =
  alertes :: "alerte list"
  recommandations :: "recommandation list"
  statutGlobal :: statut
  an_plante :: plante

datatype js_error = TypeError

definition mk_alerte :: "alerte_type \<Rightarrow> alerte_titre \<Rightarrow> string \<Rightarrow> alerte" where
  "mk_alerte t ti p = \<lparr>a_type = t, titre = ti, parametre = S p\<rparr>"

definition oxygeneOptimal :: optimal_range where
  "oxygeneOptimal = mk_range 5 8"

definition analyse_pH :: "plante \<Rightarrow> mesure \<Rightarrow> alerte \<times> recommandation list" where
  "analyse_pH p m =
     (if js_lt (phMesure m) (rmin (pH_optimal p)) then
        (mk_alerte warning pH_Trop_Bas ''pH'',
         [Augmenter_pH (rmin (pH_optimal p)) (phMesure m)])
      else if js_gt (phMesure m) (rmax (pH_optimal p)) then
        (mk_alerte warning pH_Trop_Eleve ''pH'',
         [Diminuer_pH (phMesure m) (rmax (pH_optimal p))])
      else (mk_alerte success pH_Optimal ''pH'', []))"

definition analyse_oxygene :: "mesure \<Rightarrow> alerte \<times> recommandation list" where
  "analyse_oxygene m =
     (if js_lt (oxygeneMesure m) (rmin oxygeneOptimal) then
        (mk_alerte critical Oxygene_Insuffisant ''oxygene'', [Augmenter_oxygenation])
      else if js_gt (oxygeneMesure m) (rmax oxygeneOptimal) then
        (mk_alerte warning Oxygene_Eleve ''oxygene'', [Surveiller_oxygenation])
      else (mk_alerte success Oxygene_Optimal ''oxygene'', []))"

definition analyse_temperature :: "plante \<Rightarrow> mesure \<Rightarrow> alerte \<times> recommandation list" where
  "analyse_temperature p m =
     (if js_lt (temperatureEau m) (rmin (temperature_optimal p)) then
        (mk_alerte warning Temperature_Trop_Basse ''temperature'', [Augmenter_temperature])
      else if js_gt (temperatureEau m) (rmax (temperature_optimal p)) then
        (mk_alerte critical Temperature_Trop_Elevee ''temperature'', [Refroidir_eau])
      else (mk_alerte success Temperature_Optimale ''temperature'', []))"

text \<open>
  \<open>analyserParametresPlante\<close>: the three analyses push their alert and their
  recommendation in turn, then the global status is computed from the alerts. A plant
  type that is no key of \<open>PLANT_DATABASE\<close> makes \<open>plante\<close> undefined, and the first
  property access on it throws.
\<close>

definition analyserParametresPlante :: "mesure \<Rightarrow> js_error + analyse" where
  "analyserParametresPlante m =
     (case map_of PLANT_DATABASE (planteType m) of
        None \<Rightarrow> Inl TypeError
      | Some p \<Rightarrow>
          (let (a1, r1) = analyse_pH p m;
               (a2, r2) = analyse_oxygene m;
               (a3, r3) = analyse_temperature p m;
               als = [a1, a2, a3];
               alertesCritiques = length (filter (\<lambda>a. a_type a = critical) als);
               alertesWarning = length (filter (\<lambda>a. a_type a = warning) als)
           in Inr \<lparr>alertes = als,
                   recommandations = r1 @ r2 @ r3,
                   statutGlobal = (if alertesCritiques > 0 then st_critique
                                   else if alertesWarning > 0 then st_alerte else st_optimal),
                   an_plante = p\<rparr>))"

text \<open>
  A measured value lies in a range when it is a number between the bounds, both
  included; NaN lies in no range.
\<close>

definition in_range :: "jsnum \<Rightarrow> optimal_range \<Rightarrow> bool" where
  "in_range v r \<longleftrightarrow> js_le (rmin r) v \<and> js_le v (rmax r)"

section \<open>Chat page (the chat script of app.js)\<close>

text \<open>
  The page's markup is not part of the sources; the model takes it that the elements
  the script looks up (\<open>chatBox\<close>, \<open>chatForm\<close>, \<open>chatInput\<close>, \<open>resetSession\<close>) exist.
  Focus changes, console output, scrolling, the mini welcome block and the time stamp
  of a message are not modelled.
\<close>

datatype role = r_user | r_bot | r_error

record metadata =
  faithfulness :: jsval
  completeness :: jsval
  decision :: jsval
  sources :: "jsnum list option"

text \<open>The default argument \<open>metadata = {}\<close>: every property is undefined.\<close>

definition no_metadata :: metadata where
  "no_metadata =
     \<lparr>faithfulness = JUndefined, completeness = JUndefined, decision = JUndefined,
      sources = None\<rparr>"

text \<open>
  The texts a message can carry: a string taken over as it is, or one of the script's
  fixed French texts (the fallback answer, and the error text with one of its three
  endings).
\<close>

datatype error_hint = Verifiez_serveur | Erreur_interne_serveur | Veuillez_reessayer

datatype msg_text = Verbatim jsstring | Desole_pas_pu_traiter | Desole_erreur error_hint

text \<open>
  A rendered message: the role, the text, the evaluation block with the two values
  interpolated into it (present only when the block is rendered), and the page numbers
  of the sources block (present only when that block is rendered).
\<close>

record message =
  m_role :: role
  m_text :: msg_text
  m_metrics :: "(jsval \<times> jsval) option"
  m_sources :: "jsnum list option"

datatype element = Message message | TypingIndicator

datatype request =
    ChatRequest jsstring jsstring
  | ResetRequest jsstring

fun is_chat_request :: "request \<Rightarrow> bool" where
  "is_chat_request (ChatRequest _ _) = True"
| "is_chat_request (ResetRequest _) = False"

fun is_reset_request :: "request \<Rightarrow> bool" where
  "is_reset_request (ResetRequest _) = True"
| "is_reset_request (ChatRequest _ _) = False"

text \<open>
  The state of the chat page: the two variables of the script, the browser's local
  storage, the children of \<open>chatBox\<close>, the input field, and whether a handler has
  replaced the location. \<open>in_flight\<close> is not a variable of the script: it lists the
  requests whose \<open>fetch\<close> promise has not settled yet, each with a suspended
  continuation of \<open>sendMessage\<close> or of the reset handler waiting for it.
\<close>

record chat_state =
  sessionId :: jsstring
  isWaitingForResponse :: bool
  localStorage :: "jsstring \<rightharpoonup> jsstring"
  chatBox :: "element list"
  input_text :: jsstring
  input_disabled :: bool
  location_replaced :: bool
  in_flight :: "request list"

definition hc_session_id :: jsstring where
  "hc_session_id = S ''hc_session_id''"

definition hydrocare_auth :: jsstring where
  "hydrocare_auth = S ''hydrocare_auth''"

definition hydrocare_user :: jsstring where
  "hydrocare_user = S ''hydrocare_user''"

text \<open>
  Loading the page: \<open>sessionId = localStorage.getItem('hc_session_id') || ''\<close>; the
  children of \<open>chatBox\<close> come from the markup.
\<close>

definition chat_init :: "(jsstring \<rightharpoonup> jsstring) \<Rightarrow> element list \<Rightarrow> chat_state" where
  "chat_init ls box =
     \<lparr>sessionId = (case ls hc_session_id of None \<Rightarrow> [] | Some s \<Rightarrow> s),
      isWaitingForResponse = False,
      localStorage = ls,
      chatBox = box,
      input_text = [],
      input_disabled = False,
      location_replaced = False,
      in_flight = []\<rparr>"

definition NA :: jsval where
  "NA = JStr (S ''N/A'')"

definition appendMessage :: "role \<Rightarrow> msg_text \<Rightarrow> metadata \<Rightarrow> chat_state \<Rightarrow> chat_state" where
  "appendMessage r txt md st =
     (let metrics =
            (if faithfulness md \<noteq> JUndefined \<or> completeness md \<noteq> JUndefined
             then Some (js_or (faithfulness md) NA, js_or (completeness md) NA)
             else None);
          srcs =
            (case sources md of
               None \<Rightarrow> None
             | Some ps \<Rightarrow> if length ps > 0 then Some ps else None)
      in st\<lparr>chatBox := chatBox st @
              [Message \<lparr>m_role = r, m_text = txt, m_metrics = metrics, m_sources = srcs\<rparr>]\<rparr>)"

definition showTypingIndicator :: "chat_state \<Rightarrow> chat_state" where
  "showTypingIndicator st = st\<lparr>chatBox := chatBox st @ [TypingIndicator]\<rparr>"

text \<open>
  \<open>sendMessage\<close> up to its first \<open>await\<close>: the guard, the flag, the user's message,
  the typing indicator, and the \<open>fetch\<close> of \<open>/api/chat\<close> with the question and the
  current session identifier in the body. The second component lists the requests
  issued.
\<close>

definition sendMessage :: "jsstring \<Rightarrow> chat_state \<Rightarrow> chat_state \<times> request list" where
  "sendMessage question st =
     (if trim question = [] \<or> isWaitingForResponse st then (st, [])
      else
        (let st1 = st\<lparr>isWaitingForResponse := True, input_disabled := True\<rparr>;
             st2 = appendMessage r_user (Verbatim question) no_metadata st1;
             st3 = showTypingIndicator st2;
             req = ChatRequest question (sessionId st3)
         in (st3\<lparr>in_flight := in_flight st3 @ [req]\<rparr>, [req])))"

text \<open>
  What the awaited calls of \<open>sendMessage\<close> can produce: an error thrown with a
  message (\<open>fetch\<close> rejects, or \<open>res.json()\<close> does), a response whose status is not
  ok, or the parsed body of an ok response. The body is read at the types of the
  interface (\<open>answer\<close> and \<open>session_id\<close> strings, \<open>sources\<close> an array of numbers),
  a missing property being \<open>None\<close>.
\<close>

record chat_data =
  d_answer :: "jsstring option"
  d_session_id :: "jsstring option"
  d_faithfulness :: jsval
  d_completeness :: jsval
  d_decision :: jsval
  d_sources :: "jsnum list option"

datatype chat_outcome =
    Thrown jsstring
  | NotOk nat
  | OkJson chat_data

text \<open>The decimal digits of a number, for the message \<open>Erreur HTTP: <status>\<close>.\<close>

fun digits :: "nat \<Rightarrow> jsstring" where
  "digits n = (if n < 10 then [of_nat (48 + n)] else digits (n div 10) @ [of_nat (48 + n mod 10)])"

fun js_includes :: "jsstring \<Rightarrow> jsstring \<Rightarrow> bool" where
  "js_includes [] sub = (sub = [])"
| "js_includes (c # cs) sub = (prefix sub (c # cs) \<or> js_includes cs sub)"

definition error_message :: "chat_outcome \<Rightarrow> jsstring" where
  "error_message out =
     (case out of
        Thrown msg \<Rightarrow> msg
      | NotOk status \<Rightarrow> S ''Erreur HTTP: '' @ digits status
      | OkJson _ \<Rightarrow> [])"

definition hint_of :: "jsstring \<Rightarrow> error_hint" where
  "hint_of msg =
     (if js_includes msg (S ''Failed to fetch'') \<or> js_includes msg (S ''Network'') then Verifiez_serveur
      else if js_includes msg (S ''500'') then Erreur_interne_serveur
      else Veuillez_reessayer)"

definition remove_typing :: "chat_state \<Rightarrow> chat_state" where
  "remove_typing st = st\<lparr>chatBox := remove1 TypingIndicator (chatBox st)\<rparr>"

text \<open>
  The rest of \<open>sendMessage\<close>, run when the awaited calls have settled: the body of
  \<open>try\<close> for an ok response, the \<open>catch\<close> block otherwise, then \<open>finally\<close>.
\<close>

definition sendMessage_settled :: "chat_outcome \<Rightarrow> chat_state \<Rightarrow> chat_state" where
  "sendMessage_settled out st =
     (let st' =
        (case out of
           OkJson data \<Rightarrow>
             (let sid = (case d_session_id data of
                           None \<Rightarrow> sessionId st
                         | Some s \<Rightarrow> if s \<noteq> [] then s else sessionId st);
                  st1 = st\<lparr>sessionId := sid,
                           localStorage := (localStorage st)(hc_session_id \<mapsto> sid)\<rparr>;
                  answer = (case d_answer data of
                              None \<Rightarrow> Desole_pas_pu_traiter
                            | Some a \<Rightarrow> if a \<noteq> [] then Verbatim a else Desole_pas_pu_traiter);
                  md = \<lparr>faithfulness = d_faithfulness data,
                        completeness = d_completeness data,
                        decision = d_decision data,
                        sources = (case d_sources data of None \<Rightarrow> Some [] | Some ps \<Rightarrow> Some ps)\<rparr>
              in appendMessage r_bot answer md (remove_typing st1))
         | _ \<Rightarrow>
             appendMessage r_error (Desole_erreur (hint_of (error_message out))) no_metadata
               (remove_typing st))
      in st'\<lparr>isWaitingForResponse := False, input_disabled := False\<rparr>)"

text \<open>The submit handler of the form.\<close>

definition chatForm_submit :: "chat_state \<Rightarrow> chat_state \<times> request list" where
  "chatForm_submit st =
     (let question = trim (input_text st)
      in if question = [] then (st, [])
         else sendMessage question (st\<lparr>input_text := []\<rparr>))"

definition Enter :: jsstring where
  "Enter = S ''Enter''"

text \<open>The keydown handler of the input: it dispatches the form's submit event.\<close>

definition input_keydown :: "bool \<Rightarrow> bool \<Rightarrow> jsstring \<Rightarrow> chat_state \<Rightarrow> chat_state \<times> request list" where
  "input_keydown ctrlKey shiftKey key st =
     (if (ctrlKey \<and> key = Enter) \<or> (key = Enter \<and> \<not> shiftKey) then chatForm_submit st
      else (st, []))"

text \<open>
  The click handler of a suggestion button; the argument is what
  \<open>getAttribute('data-question')\<close> returns.
\<close>

definition suggestion_click :: "jsstring option \<Rightarrow> chat_state \<Rightarrow> chat_state \<times> request list" where
  "suggestion_click q st =
     (case q of
        None \<Rightarrow> (st, [])
      | Some question \<Rightarrow> if question \<noteq> [] then sendMessage question st else (st, []))"

text \<open>
  The reset handler. With a session identifier it first posts to
  \<open>/api/reset-session\<close> and waits; \<open>reset_locally\<close> is the part after the
  \<open>try\<close>/\<open>catch\<close>, reached at once when the identifier is empty and otherwise when
  the request has settled, whatever its result.
\<close>

definition reset_locally :: "chat_state \<Rightarrow> chat_state" where
  "reset_locally st =
     st\<lparr>sessionId := [], localStorage := (localStorage st)(hc_session_id := None), chatBox := []\<rparr>"

definition reset_click :: "chat_state \<Rightarrow> chat_state \<times> request list" where
  "reset_click st =
     (if sessionId st \<noteq> [] then
        (let req = ResetRequest (sessionId st)
         in (st\<lparr>in_flight := in_flight st @ [req]\<rparr>, [req]))
      else (reset_locally st, []))"

datatype reset_outcome = ResetResponded nat | ResetRejected

definition logout_click :: "chat_state \<Rightarrow> chat_state" where
  "logout_click st =
     st\<lparr>localStorage :=
          (localStorage st)(hydrocare_auth := None, hydrocare_user := None, hc_session_id := None),
        location_replaced := True\<rparr>"

text \<open>
  The events of the page. A settling event stands for the browser resuming the
  continuation that waits for the oldest request of its kind in flight; with no such
  request in flight there is nothing to resume.
\<close>

datatype chat_event =
    Typed jsstring
  | Submit
  | KeyDown bool bool jsstring
  | SuggestionClick "jsstring option"
  | ChatSettled chat_outcome
  | ResetClick
  | ResetSettled reset_outcome
  | LogoutClick

fun chat_step :: "chat_event \<Rightarrow> chat_state \<Rightarrow> chat_state \<times> request list" where
  "chat_step (Typed s) st = (st\<lparr>input_text := s\<rparr>, [])"
| "chat_step Submit st = chatForm_submit st"
| "chat_step (KeyDown c s k) st = input_keydown c s k st"
| "chat_step (SuggestionClick q) st = suggestion_click q st"
| "chat_step (ChatSettled out) st =
     (case find is_chat_request (in_flight st) of
        None \<Rightarrow> (st, [])
      | Some r \<Rightarrow> (sendMessage_settled out (st\<lparr>in_flight := remove1 r (in_flight st)\<rparr>), []))"
| "chat_step ResetClick st = reset_click st"
| "chat_step (ResetSettled out) st =
     (case find is_reset_request (in_flight st) of
        None \<Rightarrow> (st, [])
      | Some r \<Rightarrow> (reset_locally (st\<lparr>in_flight := remove1 r (in_flight st)\<rparr>), []))"
| "chat_step LogoutClick st = (logout_click st, [])"

text \<open>A run of the page: the final state and every request issued, in order.\<close>

fun chat_run :: "chat_event list \<Rightarrow> chat_state \<Rightarrow> chat_state \<times> request list" where
  "chat_run [] st = (st, [])"
| "chat_run (e # es) st =
     (let (st1, rs1) = chat_step e st; (st2, rs2) = chat_run es st1 in (st2, rs1 @ rs2))"

definition outstanding_chat :: "chat_state \<Rightarrow> nat" where
  "outstanding_chat st = length (filter is_chat_request (in_flight st))"

section \<open>Disease detection page (the detection script of dashboard.js)\<close>

text \<open>
  As for the chat page, the elements the script looks up are taken to exist. Of the
  results panel the model keeps the texts that the script reads back or that show an
  error (\<open>diseaseName\<close>, \<open>diseaseDescription\<close>, \<open>diagnosisTitle\<close>,
  \<open>confidenceValue\<close>); icons, colours, the preview image and the list of
  recommendations are not modelled.
\<close>

record image_file =
  f_name :: jsstring
  f_type :: jsstring
  f_size :: nat

text \<open>The messages passed to \<open>showError\<close>, each a fixed French text of the script.\<close>

datatype detect_error =
    Image_trop_volumineuse
  | Backend_indisponible
  | Selectionner_image
  | Erreur_analyse jsstring

text \<open>
  The text content of an element of the panel: a string, the template
  \<open>${confidence}%\<close> kept with the value it interpolates (the rendering of a number as
  text is not modelled), the message of an error, or the fixed text shown when the
  result has no description.
\<close>

datatype dom_text =
    Txt jsstring
  | Percent jsval
  | ErrorText detect_error
  | Aucune_description

datatype diagnosis = Plante_Saine | Attention_Requise | Maladie_Detectee | Diagnostic | Erreur

datatype button_label = Label_markup | API_indisponible | Analyse_en_cours | Analyser_image

record report =
  r_date :: jsstring
  r_disease :: dom_text
  r_confidence :: dom_text
  r_image :: jsstring
  r_timestamp :: nat

datatype alert_text = Aucune_analyse | Aucun_historique | Historique "report list"

datatype detect_effect =
    FetchHealth
  | FetchAnalyze image_file
  | Alert alert_text

fun is_analyze :: "detect_effect \<Rightarrow> bool" where
  "is_analyze (FetchAnalyze _) = True"
| "is_analyze _ = False"

text \<open>
  The state of the detection page. \<open>analysis_history\<close> is the value stored in local
  storage under \<open>hc_analysis_history\<close>, read as the list of reports it encodes
  (\<open>None\<close> when the key is absent); only this script writes the key, always as the
  JSON text of a list of reports. \<open>reading\<close>, \<open>analyses_in_flight\<close> and
  \<open>health_in_flight\<close> are not variables of the script: they list the file reads and
  the requests that have not completed yet, each with a callback or a suspended
  continuation waiting.
\<close>

record detect_state =
  currentImageFile :: "image_file option"
  analyzeBtn_disabled :: bool
  analyzeBtn_label :: button_label
  results_shown :: bool
  diseaseName :: dom_text
  diseaseDescription :: dom_text
  diagnosisTitle :: diagnosis
  confidenceValue :: dom_text
  preview :: "image_file option"
  analysis_history :: "report list option"
  reading :: "image_file list"
  analyses_in_flight :: "image_file list"
  health_in_flight :: bool

definition showError :: "detect_error \<Rightarrow> detect_state \<Rightarrow> detect_state" where
  "showError msg st =
     st\<lparr>results_shown := True,
        diseaseName := Txt (S ''Erreur''),
        diseaseDescription := ErrorText msg,
        diagnosisTitle := Erreur,
        confidenceValue := Txt (S ''0%'')\<rparr>"

text \<open>
  \<open>init\<close>: the listeners are installed, and \<open>checkBackendHealth\<close> runs up to its
  \<open>await\<close>, issuing the GET of \<open>/health\<close>. What the panel and the button show at
  first comes from the markup, as does the stored history from earlier visits.
\<close>

definition detect_init :: "detect_state \<Rightarrow> detect_state \<times> detect_effect list" where
  "detect_init markup =
     (markup\<lparr>currentImageFile := None, reading := [], analyses_in_flight := [],
             health_in_flight := True\<rparr>,
      [FetchHealth])"

text \<open>
  What the awaited calls of \<open>checkBackendHealth\<close> can produce: \<open>fetch\<close> or
  \<open>response.json()\<close> rejects, the status is not ok, or the body is parsed and its
  \<open>model_loaded\<close> property read.
\<close>

datatype health_outcome =
    HealthRejected
  | HealthNotOk nat
  | HealthJson jsval

definition health_failed :: "health_outcome \<Rightarrow> bool" where
  "health_failed out =
     (case out of
        HealthRejected \<Rightarrow> True
      | HealthNotOk _ \<Rightarrow> True
      | HealthJson model_loaded \<Rightarrow> \<not> truthy model_loaded)"

text \<open>The rest of \<open>checkBackendHealth\<close>: the \<open>catch\<close> block runs when the check failed.\<close>

definition checkBackendHealth_settled :: "health_outcome \<Rightarrow> detect_state \<Rightarrow> detect_state" where
  "checkBackendHealth_settled out st =
     (if health_failed out then
        showError Backend_indisponible
          (st\<lparr>analyzeBtn_disabled := True, analyzeBtn_label := API_indisponible\<rparr>)
      else st)"

definition MAX_IMAGE_SIZE :: nat where
  "MAX_IMAGE_SIZE = 10 * 1024 * 1024"

text \<open>
  \<open>handleImageFile\<close>: the size check, the assignment, and the start of the file read
  whose \<open>onload\<close> callback is \<open>reader_onload\<close>.
\<close>

definition handleImageFile :: "image_file \<Rightarrow> detect_state \<Rightarrow> detect_state" where
  "handleImageFile f st =
     (if f_size f > MAX_IMAGE_SIZE then showError Image_trop_volumineuse st
      else st\<lparr>currentImageFile := Some f, reading := reading st @ [f]\<rparr>)"

definition reader_onload :: "image_file \<Rightarrow> detect_state \<Rightarrow> detect_state" where
  "reader_onload f st = st\<lparr>preview := Some f, analyzeBtn_disabled := False\<rparr>"

definition is_image :: "image_file \<Rightarrow> bool" where
  "is_image f = prefix (S ''image/'') (f_type f)"

text \<open>\<open>handleImageSelect\<close> and \<open>handleDrop\<close>, given the list of files of the event.\<close>

definition handleImageSelect :: "image_file list \<Rightarrow> detect_state \<Rightarrow> detect_state" where
  "handleImageSelect files st =
     (case files of
        [] \<Rightarrow> st
      | f # _ \<Rightarrow> if is_image f then handleImageFile f st else st)"

definition handleDrop :: "image_file list \<Rightarrow> detect_state \<Rightarrow> detect_state" where
  "handleDrop files st =
     (case files of
        [] \<Rightarrow> st
      | f # _ \<Rightarrow> if is_image f then handleImageFile f st else st)"

text \<open>
  \<open>analyzeImage\<close> up to its \<open>await\<close>: without a current file it shows an error;
  otherwise it disables the button and posts the current file to \<open>/analyze\<close>.
\<close>

definition analyzeImage :: "detect_state \<Rightarrow> detect_state \<times> detect_effect list" where
  "analyzeImage st =
     (case currentImageFile st of
        None \<Rightarrow> (showError Selectionner_image st, [])
      | Some f \<Rightarrow>
          (st\<lparr>analyzeBtn_label := Analyse_en_cours, analyzeBtn_disabled := True,
              analyses_in_flight := analyses_in_flight st @ [f]\<rparr>,
           [FetchAnalyze f]))"

text \<open>
  The body of an ok response of \<open>/analyze\<close>, read at the types of the interface; a
  missing property is \<open>None\<close> or \<open>JUndefined\<close>.
\<close>

record analysis_result =
  res_disease :: "jsstring option"
  res_confidence :: jsval
  res_description :: "jsstring option"
  res_severity :: "jsstring option"

datatype analyze_outcome =
    AnalyzeThrown jsstring
  | AnalyzeOk analysis_result

text \<open>
  \<open>formatDiseaseName\<close>: underscores become spaces, a space goes before every capital
  letter, \<open>bell\<close> becomes \<open>bell\<close> followed by a space, and the result is trimmed.
\<close>

fun replace_bell :: "jsstring \<Rightarrow> jsstring" where
  "replace_bell [] = []"
| "replace_bell (c # cs) =
     (if prefix (S ''bell'') (c # cs) then S ''bell '' @ replace_bell (drop 3 cs)
      else c # replace_bell cs)"

definition formatDiseaseName :: "jsstring \<Rightarrow> jsstring" where
  "formatDiseaseName disease =
     trim (replace_bell
       (concat (map (\<lambda>c. if 0x41 \<le> c \<and> c \<le> 0x5A then [0x20, c] else [c])
          (map (\<lambda>c. if c = 0x5F then 0x20 else c) disease))))"

definition updateDiagnosisStyle :: "jsstring \<Rightarrow> detect_state \<Rightarrow> detect_state" where
  "updateDiagnosisStyle severity st =
     st\<lparr>diagnosisTitle :=
          (if severity = S ''healthy'' then Plante_Saine
           else if severity = S ''warning'' then Attention_Requise
           else if severity = S ''danger'' then Maladie_Detectee
           else Diagnostic)\<rparr>"

definition or_string :: "jsstring option \<Rightarrow> jsstring \<Rightarrow> jsstring" where
  "or_string v d = (case v of None \<Rightarrow> d | Some s \<Rightarrow> if s \<noteq> [] then s else d)"

definition displayResults :: "analysis_result \<Rightarrow> detect_state \<Rightarrow> detect_state" where
  "displayResults result st =
     updateDiagnosisStyle (or_string (res_severity result) (S ''healthy''))
       (st\<lparr>results_shown := True,
           confidenceValue := Percent (js_or (res_confidence result) (JNum (Fin 0))),
           diseaseName := Txt (formatDiseaseName (or_string (res_disease result) (S ''Inconnu''))),
           diseaseDescription :=
             (case res_description result of
                None \<Rightarrow> Aucune_description
              | Some d \<Rightarrow> if d \<noteq> [] then Txt d else Aucune_description)\<rparr>)"

text \<open>The rest of \<open>analyzeImage\<close>: \<open>try\<close> or \<open>catch\<close>, then \<open>finally\<close>.\<close>

definition analyzeImage_settled :: "analyze_outcome \<Rightarrow> detect_state \<Rightarrow> detect_state" where
  "analyzeImage_settled out st =
     (let st' = (case out of
                   AnalyzeOk result \<Rightarrow> displayResults result st
                 | AnalyzeThrown msg \<Rightarrow> showError (Erreur_analyse msg) st)
      in st'\<lparr>analyzeBtn_label := Analyser_image, analyzeBtn_disabled := False\<rparr>)"

definition stored_history :: "detect_state \<Rightarrow> report list" where
  "stored_history st = (case analysis_history st of None \<Rightarrow> [] | Some h \<Rightarrow> h)"

text \<open>
  \<open>saveReport\<close>, given what the two \<open>new Date()\<close> calls yield (the date as a French
  text and the time in milliseconds): \<open>unshift\<close> puts the report in front, and
  \<open>slice(0, 10)\<close> keeps the first ten entries.
\<close>

definition new_report :: "jsstring \<Rightarrow> nat \<Rightarrow> image_file \<Rightarrow> detect_state \<Rightarrow> report" where
  "new_report date_text millis f st =
     \<lparr>r_date = date_text, r_disease = diseaseName st, r_confidence = confidenceValue st,
      r_image = f_name f, r_timestamp = millis\<rparr>"

definition saveReport :: "jsstring \<Rightarrow> nat \<Rightarrow> detect_state \<Rightarrow> detect_state \<times> detect_effect list" where
  "saveReport date_text millis st =
     (case currentImageFile st of
        None \<Rightarrow> (st, [Alert Aucune_analyse])
      | Some f \<Rightarrow>
          (let rep = new_report date_text millis f st;
               history = rep # stored_history st
           in (st\<lparr>analysis_history := Some (take 10 history)\<rparr>, [])))"

definition showHistory :: "detect_state \<Rightarrow> detect_state \<times> detect_effect list" where
  "showHistory st =
     (if length (stored_history st) = 0 then (st, [Alert Aucun_historique])
      else (st, [Alert (Historique (stored_history st))]))"

text \<open>
  The events of the page. A click on the analyze button reaches \<open>analyzeImage\<close>
  only when the button is enabled: the browser dispatches no click to a disabled
  button. A completion event resumes the oldest pending callback or continuation of
  its kind, and does nothing when there is none.
\<close>

datatype detect_event =
    HealthSettled health_outcome
  | ImageSelect "image_file list"
  | DropFiles "image_file list"
  | ReaderLoaded
  | AnalyzeClick
  | AnalyzeSettled analyze_outcome
  | SaveReportClick jsstring nat
  | HistoryClick

fun detect_step :: "detect_event \<Rightarrow> detect_state \<Rightarrow> detect_state \<times> detect_effect list" where
  "detect_step (HealthSettled out) st =
     (if health_in_flight st
      then (checkBackendHealth_settled out (st\<lparr>health_in_flight := False\<rparr>), [])
      else (st, []))"
| "detect_step (ImageSelect files) st = (handleImageSelect files st, [])"
| "detect_step (DropFiles files) st = (handleDrop files st, [])"
| "detect_step ReaderLoaded st =
     (case reading st of
        [] \<Rightarrow> (st, [])
      | f # fs \<Rightarrow> (reader_onload f (st\<lparr>reading := fs\<rparr>), []))"
| "detect_step AnalyzeClick st =
     (if analyzeBtn_disabled st then (st, []) else analyzeImage st)"
| "detect_step (AnalyzeSettled out) st =
     (case analyses_in_flight st of
        [] \<Rightarrow> (st, [])
      | f # fs \<Rightarrow> (analyzeImage_settled out (st\<lparr>analyses_in_flight := fs\<rparr>), []))"
| "detect_step (SaveReportClick date_text millis) st = saveReport date_text millis st"
| "detect_step HistoryClick st = showHistory st"

fun detect_run :: "detect_event list \<Rightarrow> detect_state \<Rightarrow> detect_state \<times> detect_effect list" where
  "detect_run [] st = (st, [])"
| "detect_run (e # es) st =
     (let (st1, fx1) = detect_step e st; (st2, fx2) = detect_run es st1 in (st2, fx1 @ fx2))"

section \<open>Login and register forms (the landing script of app.js)\<close>

subsection \<open>Regular expressions\<close>








subsection \<open>The forms\<close>






















section \<open>Predicates and sample values of the properties\<close>

subsection \<open>Measurement analysis: a sample measurement\<close>

text \<open>
  The measurement that \<open>analyserParametres\<close> builds when the pH field of the form
  holds no number: \<open>parseFloat\<close> yields NaN.
\<close>

definition mesure_pH_vide :: mesure where
  "mesure_pH_vide =
     \<lparr>systemeNom = S ''Bac 1'', planteType = S ''basilic'', tailleBac = Fin 40,
      nombrePlantes = Fin 6, phMesure = NaN, oxygeneMesure = Fin 6,
      temperatureEau = Fin 22, m_notes = [], dateMesure = S ''2025-01-01T00:00:00.000Z''\<rparr>"

subsection \<open>Chat page: predicates and a sample response\<close>

text \<open>What the reset handler leaves behind on the client.\<close>

definition locally_reset :: "chat_state \<Rightarrow> bool" where
  "locally_reset st \<longleftrightarrow>
     sessionId st = [] \<and> localStorage st hc_session_id = None \<and> chatBox st = []"

text \<open>
  The busy flag and the chat requests in flight agree: at most one chat request is
  outstanding, and the flag is set exactly when one is.
\<close>

definition chat_inv :: "chat_state \<Rightarrow> bool" where
  "chat_inv st \<longleftrightarrow>
     outstanding_chat st \<le> 1 \<and> (isWaitingForResponse st = (outstanding_chat st = 1))"

text \<open>The events that submit a question: the form, the Enter key, a suggestion button.\<close>

fun is_submission :: "chat_event \<Rightarrow> bool" where
  "is_submission Submit = True"
| "is_submission (KeyDown _ _ _) = True"
| "is_submission (SuggestionClick _) = True"
| "is_submission _ = False"

fun is_chat_settled :: "chat_event \<Rightarrow> bool" where
  "is_chat_settled (ChatSettled _) = True"
| "is_chat_settled _ = False"

fun session_of :: "request \<Rightarrow> jsstring" where
  "session_of (ChatRequest _ sid) = sid"
| "session_of (ResetRequest sid) = sid"

text \<open>
  The events that leave a stored session identifier alone: every event but a reset, a
  logout, and an ok chat response that carries another non-empty identifier.
\<close>

fun keeps_session :: "jsstring \<Rightarrow> chat_event \<Rightarrow> bool" where
  "keeps_session sid ResetClick = False"
| "keeps_session sid (ResetSettled _) = False"
| "keeps_session sid LogoutClick = False"
| "keeps_session sid (ChatSettled (OkJson data)) =
     (case d_session_id data of None \<Rightarrow> True | Some s \<Rightarrow> s = [] \<or> s = sid)"
| "keeps_session sid _ = True"

text \<open>An ok chat response that carries the given session identifier.\<close>

definition chat_answer :: "jsstring \<Rightarrow> chat_data" where
  "chat_answer sid =
     \<lparr>d_answer = Some (S ''ok''), d_session_id = Some sid, d_faithfulness = JUndefined,
      d_completeness = JUndefined, d_decision = JUndefined, d_sources = None\<rparr>"

subsection \<open>Detection page: predicates and sample files\<close>

definition within_limit :: "image_file \<Rightarrow> bool" where
  "within_limit g \<longleftrightarrow> f_size g \<le> MAX_IMAGE_SIZE"

text \<open>An effect that is no analyze request, or one whose file is within the limit.\<close>

fun analyzes_within_limit :: "detect_effect \<Rightarrow> bool" where
  "analyzes_within_limit (FetchAnalyze g) = within_limit g"
| "analyzes_within_limit _ = True"

definition current_within_limit :: "detect_state \<Rightarrow> bool" where
  "current_within_limit st =
     (case currentImageFile st of None \<Rightarrow> True | Some g \<Rightarrow> within_limit g)"

text \<open>
  A page as the markup may give it, with the analyze button disabled and nothing
  stored, and two image files: a small one, and one a byte above the limit.
\<close>

definition detect_markup :: detect_state where
  "detect_markup =
     \<lparr>currentImageFile = None, analyzeBtn_disabled = True, analyzeBtn_label = Label_markup,
      results_shown = False, diseaseName = Txt [], diseaseDescription = Txt [],
      diagnosisTitle = Diagnostic, confidenceValue = Txt [], preview = None,
      analysis_history = None, reading = [], analyses_in_flight = [],
      health_in_flight = False\<rparr>"

definition leaf_jpg :: image_file where
  "leaf_jpg = \<lparr>f_name = S ''leaf.jpg'', f_type = S ''image/jpeg'', f_size = 204800\<rparr>"

definition huge_png :: image_file where
  "huge_png = \<lparr>f_name = S ''huge.png'', f_type = S ''image/png'', f_size = 10485761\<rparr>"

subsection \<open>Forms: predicates and a sample form\<close>





section \<open>Verified properties\<close>

subsection \<open>Measurement analysis\<close>

lemma in_range_iff:
  "v \<noteq> NaN \<Longrightarrow> rmin r \<noteq> NaN \<Longrightarrow> rmax r \<noteq> NaN \<Longrightarrow>
   in_range v r \<longleftrightarrow> \<not> js_lt v (rmin r) \<and> \<not> js_gt v (rmax r)"
  by (cases v; cases "rmin r"; cases "rmax r") (auto simp: in_range_def js_gt_def)

lemma plant_ranges:
  assumes "map_of PLANT_DATABASE k = Some p"
  shows "rmin (pH_optimal p) \<noteq> NaN \<and> rmax (pH_optimal p) \<noteq> NaN \<and>
         rmin (temperature_optimal p) \<noteq> NaN \<and> rmax (temperature_optimal p) \<noteq> NaN"
proof -
  from assms have "(k, p) \<in> set PLANT_DATABASE" by (rule map_of_SomeD)
  then show ?thesis
    by (auto simp: PLANT_DATABASE_def mk_plante_def mk_range_def)
qed

text \<open>
  When the three measured values are numbers, the analysis of a plant of the database
  returns three alerts, for pH, oxygen and temperature in this order; each is
  \<open>success\<close> exactly when its value lies in the range; and the global status is
  \<open>critique\<close> with a critical alert, else \<open>alerte\<close> with a warning, else \<open>optimal\<close>.
\<close>

lemma analyserParametresPlante_numbers:
  assumes db: "map_of PLANT_DATABASE (planteType m) = Some p"
    and ph: "phMesure m \<noteq> NaN" and ox: "oxygeneMesure m \<noteq> NaN"
    and te: "temperatureEau m \<noteq> NaN"
  shows "\<exists>a1 a2 a3 rs.
           analyserParametresPlante m =
             Inr \<lparr>alertes = [a1, a2, a3], recommandations = rs,
                  statutGlobal =
                    (if critical \<in> {a_type a1, a_type a2, a_type a3} then st_critique
                     else if warning \<in> {a_type a1, a_type a2, a_type a3} then st_alerte
                     else st_optimal),
                  an_plante = p\<rparr> \<and>
           parametre a1 = S ''pH'' \<and> parametre a2 = S ''oxygene'' \<and>
           parametre a3 = S ''temperature'' \<and>
           (a_type a1 = success \<longleftrightarrow> in_range (phMesure m) (pH_optimal p)) \<and>
           (a_type a2 = success \<longleftrightarrow> in_range (oxygeneMesure m) oxygeneOptimal) \<and>
           (a_type a3 = success \<longleftrightarrow> in_range (temperatureEau m) (temperature_optimal p))"
proof -
  note r = plant_ranges [OF db]
  have 1: "in_range (phMesure m) (pH_optimal p) \<longleftrightarrow>
           \<not> js_lt (phMesure m) (rmin (pH_optimal p)) \<and>
           \<not> js_gt (phMesure m) (rmax (pH_optimal p))"
    using ph r by (simp add: in_range_iff)
  have 2: "in_range (oxygeneMesure m) oxygeneOptimal \<longleftrightarrow>
           \<not> js_lt (oxygeneMesure m) (rmin oxygeneOptimal) \<and>
           \<not> js_gt (oxygeneMesure m) (rmax oxygeneOptimal)"
    using ox by (simp add: oxygeneOptimal_def mk_range_def in_range_iff)
  have 3: "in_range (temperatureEau m) (temperature_optimal p) \<longleftrightarrow>
           \<not> js_lt (temperatureEau m) (rmin (temperature_optimal p)) \<and>
           \<not> js_gt (temperatureEau m) (rmax (temperature_optimal p))"
    using te r by (simp add: in_range_iff)
  show ?thesis
    unfolding 1 2 3
    by (simp add: analyserParametresPlante_def db analyse_pH_def analyse_oxygene_def
        analyse_temperature_def mk_alerte_def)
qed

text \<open>
  C10. The claim: for every measurement of a plant of the database, the pH alert is
  \<open>success\<close> exactly when the measured pH lies within the plant's optimal range
  (and likewise for oxygen and temperature). The script tests only whether the value
  is below the minimum or above the maximum, and both tests are false for NaN: for the
  measurement of basil with a pH field that holds no number, the analysis returns
  three \<open>success\<close> alerts and the global status \<open>optimal\<close>, although NaN lies in
  no range.
\<close>

theorem analyserParametresPlante_NaN_success:
  "\<not> isl (analyserParametresPlante mesure_pH_vide) \<and>
   map a_type (alertes (projr (analyserParametresPlante mesure_pH_vide)))
     = [success, success, success] \<and>
   statutGlobal (projr (analyserParametresPlante mesure_pH_vide)) = st_optimal \<and>
   \<not> in_range (phMesure mesure_pH_vide)
       (pH_optimal (an_plante (projr (analyserParametresPlante mesure_pH_vide))))"
  by (simp add: mesure_pH_vide_def analyserParametresPlante_def analyse_pH_def
      analyse_oxygene_def analyse_temperature_def mk_alerte_def js_gt_def oxygeneOptimal_def
      mk_range_def PLANT_DATABASE_def S_def mk_plante_def in_range_def)

subsection \<open>Chat page\<close>

lemma find_snoc: "P x \<Longrightarrow> find P (xs @ [x]) \<noteq> None"
  by (induction xs) auto

lemma sendMessage_cases:
  "sendMessage q st = (st, []) \<or>
   (\<not> isWaitingForResponse st \<and> trim q \<noteq> [] \<and>
    snd (sendMessage q st) = [ChatRequest q (sessionId st)] \<and>
    isWaitingForResponse (fst (sendMessage q st)) \<and>
    in_flight (fst (sendMessage q st)) = in_flight st @ [ChatRequest q (sessionId st)] \<and>
    outstanding_chat (fst (sendMessage q st)) = Suc (outstanding_chat st) \<and>
    sessionId (fst (sendMessage q st)) = sessionId st \<and>
    localStorage (fst (sendMessage q st)) = localStorage st)"
  by (simp add: sendMessage_def Let_def appendMessage_def showTypingIndicator_def
      outstanding_chat_def)

lemma sendMessage_inv: "chat_inv st \<Longrightarrow> chat_inv (fst (sendMessage q st))"
  using sendMessage_cases [of q st]
  by (auto simp: chat_inv_def)

lemma chatForm_submit_inv: "chat_inv st \<Longrightarrow> chat_inv (fst (chatForm_submit st))"
proof -
  assume a: "chat_inv st"
  have "chat_inv (st\<lparr>input_text := []\<rparr>)"
    using a by (simp add: chat_inv_def outstanding_chat_def)
  then show ?thesis
    using a by (simp add: chatForm_submit_def Let_def sendMessage_inv)
qed

lemma outstanding_remove1_chat:
  assumes "find is_chat_request xs = Some r"
  shows "length (filter is_chat_request (remove1 r xs)) = length (filter is_chat_request xs) - 1
         \<and> 0 < length (filter is_chat_request xs)"
proof -
  from assms have r: "is_chat_request r" "r \<in> set xs"
    by (auto simp: find_Some_iff)
  then have m: "r \<in> set (filter is_chat_request xs)" by simp
  then have "0 < length (filter is_chat_request xs)" by (rule length_pos_if_in_set)
  moreover have "length (remove1 r (filter is_chat_request xs))
                 = length (filter is_chat_request xs) - 1"
    using m by (simp only: length_remove1 if_True)
  ultimately show ?thesis by (simp only: filter_remove1 simp_thms)
qed

lemma outstanding_remove1_reset:
  assumes "find is_reset_request xs = Some r"
  shows "filter is_chat_request (remove1 r xs) = filter is_chat_request xs"
proof -
  from assms have r: "is_reset_request r" by (auto simp: find_Some_iff)
  then have "\<not> is_chat_request r" by (cases r) auto
  then have "r \<notin> set (filter is_chat_request xs)" by simp
  then show ?thesis by (simp add: filter_remove1 remove1_idem)
qed

lemma sendMessage_settled_fields:
  "isWaitingForResponse (sendMessage_settled out st) = False \<and>
   in_flight (sendMessage_settled out st) = in_flight st"
  by (cases out) (simp_all add: sendMessage_settled_def Let_def appendMessage_def remove_typing_def)

lemma chat_step_inv: "chat_inv st \<Longrightarrow> chat_inv (fst (chat_step e st))"
proof (cases e)
  case (Typed s)
  assume "chat_inv st" then show ?thesis using Typed
    by (simp add: chat_inv_def outstanding_chat_def)
next
  case Submit
  assume "chat_inv st" then show ?thesis using Submit by (simp add: chatForm_submit_inv)
next
  case (KeyDown c s k)
  assume "chat_inv st" then show ?thesis using KeyDown
    by (simp add: input_keydown_def chatForm_submit_inv)
next
  case (SuggestionClick q)
  assume "chat_inv st" then show ?thesis using SuggestionClick
    by (simp add: suggestion_click_def sendMessage_inv split: option.splits)
next
  case (ChatSettled out)
  assume a: "chat_inv st"
  show ?thesis
  proof (cases "find is_chat_request (in_flight st)")
    case None
    then show ?thesis using a ChatSettled by simp
  next
    case (Some r)
    from outstanding_remove1_chat [OF Some] a show ?thesis
      using ChatSettled Some
      by (simp add: chat_inv_def outstanding_chat_def sendMessage_settled_fields)
  qed
next
  case ResetClick
  assume "chat_inv st" then show ?thesis using ResetClick
    by (simp add: reset_click_def reset_locally_def chat_inv_def outstanding_chat_def Let_def)
next
  case (ResetSettled out)
  assume a: "chat_inv st"
  show ?thesis
  proof (cases "find is_reset_request (in_flight st)")
    case None
    then show ?thesis using a ResetSettled by simp
  next
    case (Some r)
    from outstanding_remove1_reset [OF Some] a show ?thesis
      using ResetSettled Some
      by (simp add: chat_inv_def outstanding_chat_def reset_locally_def)
  qed
next
  case LogoutClick
  assume "chat_inv st" then show ?thesis using LogoutClick
    by (simp add: logout_click_def chat_inv_def outstanding_chat_def)
qed

lemma chat_run_inv: "chat_inv st \<Longrightarrow> chat_inv (fst (chat_run evs st))"
proof (induction evs arbitrary: st)
  case Nil
  then show ?case by simp
next
  case (Cons e es)
  from Cons.prems have "chat_inv (fst (chat_step e st))" by (rule chat_step_inv)
  then have "chat_inv (fst (chat_run es (fst (chat_step e st))))" by (rule Cons.IH)
  then show ?case by (simp add: split_beta Let_def)
qed

lemma chat_init_inv: "chat_inv (chat_init ls box)"
  by (simp add: chat_inv_def chat_init_def outstanding_chat_def)

lemma submission_while_waiting:
  assumes "isWaitingForResponse st" "is_submission e"
  shows "snd (chat_step e st) = [] \<and>
         fst (chat_step e st) = st\<lparr>input_text := input_text (fst (chat_step e st))\<rparr>"
  using assms
  by (cases e) (auto simp: chatForm_submit_def input_keydown_def suggestion_click_def
        sendMessage_def Let_def split: option.splits)

lemma flag_cleared_iff:
  assumes "chat_inv st" "isWaitingForResponse st"
  shows "\<not> isWaitingForResponse (fst (chat_step e st)) \<longleftrightarrow> is_chat_settled e"
proof (cases e)
  case (ChatSettled out)
  from assms have "0 < length (filter is_chat_request (in_flight st))"
    by (simp add: chat_inv_def outstanding_chat_def)
  then obtain r where "find is_chat_request (in_flight st) = Some r"
    by (cases "find is_chat_request (in_flight st)") (auto simp: find_None_iff filter_empty_conv)
  then show ?thesis using ChatSettled by (simp add: sendMessage_settled_fields)
next
  case (Typed s) then show ?thesis using assms by simp
next
  case Submit then show ?thesis using assms
    by (auto simp: chatForm_submit_def sendMessage_def Let_def)
next
  case (KeyDown c s k) then show ?thesis using assms
    by (auto simp: chatForm_submit_def input_keydown_def sendMessage_def Let_def)
next
  case (SuggestionClick q) then show ?thesis using assms
    by (auto simp: suggestion_click_def sendMessage_def Let_def split: option.splits)
next
  case ResetClick then show ?thesis using assms
    by (auto simp: reset_click_def reset_locally_def Let_def)
next
  case (ResetSettled out) then show ?thesis using assms
    by (auto simp: reset_locally_def split: option.splits)
next
  case LogoutClick then show ?thesis using assms by (simp add: logout_click_def)
qed

text \<open>
  C1. A question that is empty after trimming produces no request and changes
  nothing: \<open>sendMessage\<close> called with it (as a suggestion button does) returns at
  its guard, and the form's submit handler, also when the Enter key dispatches it,
  returns before it touches the input field. The state, and with it the transcript
  and the session identifier, is the same afterwards, and no request is issued.
\<close>

theorem blank_question_no_request:
  assumes "trim question = []"
  shows "sendMessage question st = (st, []) \<and>
         suggestion_click (Some question) st = (st, []) \<and>
         chatForm_submit (st\<lparr>input_text := question\<rparr>) = (st\<lparr>input_text := question\<rparr>, []) \<and>
         input_keydown ctrlKey shiftKey key (st\<lparr>input_text := question\<rparr>)
           = (st\<lparr>input_text := question\<rparr>, [])"
  using assms
  by (simp add: sendMessage_def suggestion_click_def chatForm_submit_def input_keydown_def)

theorem blank_question_no_request_witness:
  "trim (S ''  '') = [] \<and>
   sendMessage (S ''  '') (chat_init Map.empty []) = (chat_init Map.empty [], []) \<and>
   chatForm_submit ((chat_init Map.empty [])\<lparr>input_text := S ''  ''\<rparr>)
     = ((chat_init Map.empty [])\<lparr>input_text := S ''  ''\<rparr>, [])"
  using blank_question_no_request [of "S ''  ''" "chat_init Map.empty []"]
  by (simp add: trim_def S_def isWhiteSpace_def)

text \<open>
  C2. Every execution of the reset handler ends with the client reset locally: the
  session identifier in memory is empty, the key \<open>hc_session_id\<close> is removed from
  local storage and \<open>chatBox\<close> has no children. With an empty identifier the click
  does so at once and issues no request. With a non-empty one the click posts the
  reset request, which is then in flight; and whenever the continuation of a reset
  request in flight is resumed, in whatever state the page is by then and whether the
  request was answered (with any status) or rejected, it resets the client locally.
\<close>

theorem reset_clears_locally:
  "(sessionId st = [] \<longrightarrow>
      locally_reset (fst (chat_step ResetClick st)) \<and> snd (chat_step ResetClick st) = []) \<and>
   (sessionId st \<noteq> [] \<longrightarrow>
      snd (chat_step ResetClick st) = [ResetRequest (sessionId st)] \<and>
      find is_reset_request (in_flight (fst (chat_step ResetClick st))) \<noteq> None) \<and>
   (find is_reset_request (in_flight st') \<noteq> None \<longrightarrow>
      locally_reset (fst (chat_step (ResetSettled out) st')))"
  using find_snoc [of is_reset_request "ResetRequest (sessionId st)" "in_flight st"]
  by (auto simp: reset_click_def reset_locally_def locally_reset_def Let_def split: option.splits)

theorem reset_clears_locally_witness:
  "sessionId (chat_init [hc_session_id \<mapsto> S ''s1''] [TypingIndicator]) = S ''s1'' \<and>
   snd (chat_step ResetClick (chat_init [hc_session_id \<mapsto> S ''s1''] [TypingIndicator]))
     = [ResetRequest (S ''s1'')] \<and>
   locally_reset (fst (chat_step (ResetSettled ResetRejected)
     (fst (chat_step ResetClick (chat_init [hc_session_id \<mapsto> S ''s1''] [TypingIndicator]))))) \<and>
   locally_reset (fst (chat_step (ResetSettled (ResetResponded 500))
     (fst (chat_step ResetClick (chat_init [hc_session_id \<mapsto> S ''s1''] [TypingIndicator]))))) \<and>
   sessionId (chat_init Map.empty [TypingIndicator]) = [] \<and>
   locally_reset (fst (chat_step ResetClick (chat_init Map.empty [TypingIndicator])))"
  using reset_clears_locally [of "chat_init [hc_session_id \<mapsto> S ''s1''] [TypingIndicator]"
      "fst (chat_step ResetClick (chat_init [hc_session_id \<mapsto> S ''s1''] [TypingIndicator]))"
      ResetRejected]
    reset_clears_locally [of "chat_init Map.empty [TypingIndicator]"
      "fst (chat_step ResetClick (chat_init [hc_session_id \<mapsto> S ''s1''] [TypingIndicator]))"
      "ResetResponded 500"]
  by (simp add: chat_init_def S_def reset_click_def Let_def)

text \<open>
  C7. \<open>appendMessage\<close> appends one message. Its evaluation block is rendered exactly
  when \<open>faithfulness\<close> or \<open>completeness\<close> is not \<open>undefined\<close> (so not when both
  are), and in a rendered block each score that is \<open>undefined\<close> shows as \<open>N/A\<close>.
\<close>

theorem appendMessage_metrics:
  "\<exists>m. chatBox (appendMessage r txt md st) = chatBox st @ [Message m] \<and>
       (m_metrics m \<noteq> None \<longleftrightarrow>
          faithfulness md \<noteq> JUndefined \<or> completeness md \<noteq> JUndefined) \<and>
       (\<forall>f c. m_metrics m = Some (f, c) \<longrightarrow>
          (faithfulness md = JUndefined \<longrightarrow> f = NA) \<and>
          (completeness md = JUndefined \<longrightarrow> c = NA))"
  by (simp add: appendMessage_def Let_def js_or_def)

theorem appendMessage_metrics_witness:
  "chatBox (appendMessage r_bot (Verbatim (S ''ok''))
      \<lparr>faithfulness = JNum (Fin 4), completeness = JUndefined, decision = JUndefined,
       sources = Some []\<rparr> (chat_init Map.empty []))
   = [Message \<lparr>m_role = r_bot, m_text = Verbatim (S ''ok''),
                m_metrics = Some (JNum (Fin 4), NA), m_sources = None\<rparr>] \<and>
   chatBox (appendMessage r_bot (Verbatim (S ''ok''))
      \<lparr>faithfulness = JUndefined, completeness = JUndefined, decision = JUndefined,
       sources = Some []\<rparr> (chat_init Map.empty []))
   = [Message \<lparr>m_role = r_bot, m_text = Verbatim (S ''ok''),
                m_metrics = None, m_sources = None\<rparr>]"
  using appendMessage_metrics [of r_bot "Verbatim (S ''ok'')"
      "\<lparr>faithfulness = JNum (Fin 4), completeness = JUndefined, decision = JUndefined,
        sources = Some []\<rparr>" "chat_init Map.empty []"]
  by (simp add: appendMessage_def chat_init_def js_or_def)

text \<open>
  C4. In every state the chat page reaches from its load, at most one chat request is
  outstanding, and the flag \<open>isWaitingForResponse\<close> is set exactly when one is. While
  the flag is set, a submission (the form, the Enter key, a suggestion button) issues
  no request and changes nothing but, for the form, the text of the input field, which
  its handler empties. And the flag, once set, is cleared by an event exactly when
  that event is the settling of the outstanding request, with a response or a failure.
\<close>

theorem one_outstanding_chat_request:
  assumes "st = fst (chat_run evs (chat_init ls box))"
  shows "outstanding_chat st \<le> 1 \<and>
         (isWaitingForResponse st \<longleftrightarrow> outstanding_chat st = 1) \<and>
         (isWaitingForResponse st \<and> is_submission e \<longrightarrow>
            snd (chat_step e st) = [] \<and>
            fst (chat_step e st) = st\<lparr>input_text := input_text (fst (chat_step e st))\<rparr>) \<and>
         (isWaitingForResponse st \<longrightarrow>
            (\<not> isWaitingForResponse (fst (chat_step e' st)) \<longleftrightarrow> is_chat_settled e'))"
proof -
  have inv: "chat_inv st"
    unfolding assms by (rule chat_run_inv [OF chat_init_inv])
  then have "outstanding_chat st \<le> 1"
    and "isWaitingForResponse st \<longleftrightarrow> outstanding_chat st = 1"
    by (simp_all add: chat_inv_def)
  moreover have "isWaitingForResponse st \<and> is_submission e \<longrightarrow>
            snd (chat_step e st) = [] \<and>
            fst (chat_step e st) = st\<lparr>input_text := input_text (fst (chat_step e st))\<rparr>"
    using submission_while_waiting [of st e] by blast
  moreover have "isWaitingForResponse st \<longrightarrow>
            (\<not> isWaitingForResponse (fst (chat_step e' st)) \<longleftrightarrow> is_chat_settled e')"
    using flag_cleared_iff [OF inv] by blast
  ultimately show ?thesis by blast
qed

theorem one_outstanding_chat_request_witness:
  "outstanding_chat (fst (chat_run [Typed (S ''a''), Submit] (chat_init Map.empty []))) = 1 \<and>
   isWaitingForResponse (fst (chat_run [Typed (S ''a''), Submit] (chat_init Map.empty []))) \<and>
   snd (chat_step (SuggestionClick (Some (S ''b'')))
          (fst (chat_run [Typed (S ''a''), Submit] (chat_init Map.empty [])))) = [] \<and>
   \<not> isWaitingForResponse (fst (chat_step (ChatSettled (NotOk 500))
          (fst (chat_run [Typed (S ''a''), Submit] (chat_init Map.empty [])))))"
  using one_outstanding_chat_request [where evs = "[Typed (S ''a''), Submit]"
      and ls = Map.empty and box = "[]" and e = "SuggestionClick (Some (S ''b''))"
      and e' = "ChatSettled (NotOk 500)", OF refl]
  by (simp add: chat_init_def chatForm_submit_def sendMessage_def Let_def trim_def S_def
      isWhiteSpace_def appendMessage_def showTypingIndicator_def no_metadata_def
      outstanding_chat_def)

lemma sendMessage_settled_session:
  "sessionId (sendMessage_settled out st) =
     (case out of
        OkJson data \<Rightarrow> (case d_session_id data of
                          None \<Rightarrow> sessionId st
                        | Some s \<Rightarrow> if s \<noteq> [] then s else sessionId st)
      | _ \<Rightarrow> sessionId st) \<and>
   localStorage (sendMessage_settled out st) =
     (case out of
        OkJson data \<Rightarrow> (localStorage st)(hc_session_id \<mapsto>
                          (case d_session_id data of
                             None \<Rightarrow> sessionId st
                           | Some s \<Rightarrow> if s \<noteq> [] then s else sessionId st))
      | _ \<Rightarrow> localStorage st)"
  by (cases out) (simp_all add: sendMessage_settled_def Let_def appendMessage_def remove_typing_def)

lemma sendMessage_session:
  assumes "sessionId st = sid" "localStorage st hc_session_id = Some sid"
  shows "sessionId (fst (sendMessage q st)) = sid \<and>
         localStorage (fst (sendMessage q st)) hc_session_id = Some sid \<and>
         list_all (\<lambda>r. session_of r = sid) (snd (sendMessage q st))"
  using assms sendMessage_cases [of q st] by auto

lemma session_kept_step:
  assumes k: "keeps_session sid e"
    and s: "sessionId st = sid" "localStorage st hc_session_id = Some sid"
  shows "sessionId (fst (chat_step e st)) = sid \<and>
         localStorage (fst (chat_step e st)) hc_session_id = Some sid \<and>
         list_all (\<lambda>r. session_of r = sid) (filter is_chat_request (snd (chat_step e st)))"
proof (cases e)
  case (Typed t)
  then show ?thesis using s by simp
next
  case Submit
  have "sessionId (st\<lparr>input_text := []\<rparr>) = sid"
       "localStorage (st\<lparr>input_text := []\<rparr>) hc_session_id = Some sid" using s by simp_all
  from sendMessage_session [OF this] show ?thesis using Submit s
    by (auto simp: chatForm_submit_def Let_def list_all_iff)
next
  case (KeyDown c sh key)
  have "sessionId (st\<lparr>input_text := []\<rparr>) = sid"
       "localStorage (st\<lparr>input_text := []\<rparr>) hc_session_id = Some sid" using s by simp_all
  from sendMessage_session [OF this] show ?thesis using KeyDown s
    by (auto simp: input_keydown_def chatForm_submit_def Let_def list_all_iff)
next
  case (SuggestionClick q)
  show ?thesis using SuggestionClick s sendMessage_session [OF s]
    by (auto simp: suggestion_click_def list_all_iff split: option.splits)
next
  case (ChatSettled out)
  show ?thesis
  proof (cases "find is_chat_request (in_flight st)")
    case None
    then show ?thesis using ChatSettled s by simp
  next
    case (Some r)
    show ?thesis
    proof (cases out)
      case (OkJson data)
      then show ?thesis using ChatSettled Some s k
        by (auto simp: sendMessage_settled_session split: option.splits)
    qed (use ChatSettled Some s in \<open>simp_all add: sendMessage_settled_session\<close>)
  qed
next
  case ResetClick then show ?thesis using k by simp
next
  case (ResetSettled out) then show ?thesis using k by simp
next
  case LogoutClick then show ?thesis using k by simp
qed

lemma session_kept_run:
  assumes "list_all (keeps_session sid) evs"
    and "sessionId st = sid" "localStorage st hc_session_id = Some sid"
  shows "sessionId (fst (chat_run evs st)) = sid \<and>
         localStorage (fst (chat_run evs st)) hc_session_id = Some sid \<and>
         list_all (\<lambda>r. session_of r = sid) (filter is_chat_request (snd (chat_run evs st)))"
  using assms
proof (induction evs arbitrary: st)
  case Nil
  then show ?case by simp
next
  case (Cons e es)
  from Cons.prems have k: "keeps_session sid e" and ks: "list_all (keeps_session sid) es"
    by simp_all
  note step = session_kept_step [OF k Cons.prems(2) Cons.prems(3)]
  from step have "sessionId (fst (chat_step e st)) = sid"
    and "localStorage (fst (chat_step e st)) hc_session_id = Some sid" by simp_all
  from Cons.IH [OF ks this] step show ?case
    by (simp add: split_beta Let_def)
qed

text \<open>
  C6, as amended. When a non-empty question is sent with an empty session identifier,
  the request carries the empty identifier; and when the ok response to it carries a
  non-empty \<open>session_id\<close>, the client stores it in memory and in local storage
  under \<open>hc_session_id\<close>. From then on, through every sequence of events that
  contains no reset, no logout and no ok chat response carrying another non-empty
  identifier, every chat request carries the stored identifier unchanged, it stays
  stored, and a reload of the page reads it back.
\<close>

theorem session_id_stored_and_replayed:
  assumes q: "trim question \<noteq> []" and nw: "\<not> isWaitingForResponse st"
    and empty: "sessionId st = []"
    and sid: "d_session_id data = Some sid" "sid \<noteq> []"
    and evs: "list_all (keeps_session sid) evs"
  defines "st1 \<equiv> fst (chat_step (ChatSettled (OkJson data)) (fst (sendMessage question st)))"
  shows "snd (sendMessage question st) = [ChatRequest question []] \<and>
         sessionId st1 = sid \<and> localStorage st1 hc_session_id = Some sid \<and>
         list_all (\<lambda>r. session_of r = sid) (filter is_chat_request (snd (chat_run evs st1))) \<and>
         sessionId (fst (chat_run evs st1)) = sid \<and>
         localStorage (fst (chat_run evs st1)) hc_session_id = Some sid \<and>
         sessionId (chat_init (localStorage (fst (chat_run evs st1))) box) = sid"
proof -
  from q nw empty
  have sent: "snd (sendMessage question st) = [ChatRequest question []]"
    and fl: "in_flight (fst (sendMessage question st)) = in_flight st @ [ChatRequest question []]"
    by (simp_all add: sendMessage_def Let_def appendMessage_def showTypingIndicator_def)
  from fl have "find is_chat_request (in_flight (fst (sendMessage question st))) \<noteq> None"
    by (simp add: find_snoc)
  then obtain r where "find is_chat_request (in_flight (fst (sendMessage question st))) = Some r"
    by blast
  then have st1: "sessionId st1 = sid" "localStorage st1 hc_session_id = Some sid"
    using sid by (simp_all add: st1_def sendMessage_settled_session)
  from session_kept_run [OF evs st1] sent st1 show ?thesis
    by (simp add: chat_init_def)
qed

theorem session_id_stored_and_replayed_witness:
  "trim (S ''a'') \<noteq> [] \<and>
   d_session_id (chat_answer (S ''s1'')) = Some (S ''s1'') \<and>
   list_all (keeps_session (S ''s1''))
     [Typed (S ''b''), Submit, ChatSettled (OkJson (chat_answer (S ''s1''))), Typed (S ''c''), Submit] \<and>
   snd (chat_run
     [Typed (S ''b''), Submit, ChatSettled (OkJson (chat_answer (S ''s1''))), Typed (S ''c''), Submit]
     (fst (chat_step (ChatSettled (OkJson (chat_answer (S ''s1''))))
        (fst (sendMessage (S ''a'') (chat_init Map.empty []))))))
   = [ChatRequest (S ''b'') (S ''s1''), ChatRequest (S ''c'') (S ''s1'')]"
  using session_id_stored_and_replayed [where question = "S ''a''" and st = "chat_init Map.empty []"
      and data = "chat_answer (S ''s1'')" and sid = "S ''s1''"
      and evs = "[Typed (S ''b''), Submit, ChatSettled (OkJson (chat_answer (S ''s1''))), Typed (S ''c''), Submit]"]
  by (simp add: chat_init_def chatForm_submit_def sendMessage_def Let_def trim_def S_def
      isWhiteSpace_def appendMessage_def showTypingIndicator_def no_metadata_def
      sendMessage_settled_def remove_typing_def chat_answer_def hc_session_id_def)

text \<open>
  The client adopts the identifier of every ok response: when a later response
  carries another identifier, the next request carries that one and no longer the
  first, with no reset or logout in between.
\<close>

theorem session_id_replaced_counterexample:
  "snd (chat_run
     [Typed (S ''a''), Submit, ChatSettled (OkJson (chat_answer (S ''s1''))),
      Typed (S ''b''), Submit, ChatSettled (OkJson (chat_answer (S ''s2''))),
      Typed (S ''c''), Submit]
     (chat_init Map.empty []))
   = [ChatRequest (S ''a'') [], ChatRequest (S ''b'') (S ''s1''), ChatRequest (S ''c'') (S ''s2'')]
   \<and> S ''s1'' \<noteq> S ''s2''"
  by (simp add: chat_init_def chatForm_submit_def sendMessage_def Let_def trim_def S_def
      isWhiteSpace_def appendMessage_def showTypingIndicator_def no_metadata_def
      sendMessage_settled_def remove_typing_def chat_answer_def hc_session_id_def)

subsection \<open>Disease detection page\<close>

lemma handleImageFile_limit:
  "current_within_limit st \<Longrightarrow> current_within_limit (handleImageFile f st)"
  by (simp add: handleImageFile_def current_within_limit_def within_limit_def showError_def)

lemma detect_step_limit:
  assumes "current_within_limit st"
  shows "current_within_limit (fst (detect_step e st)) \<and>
         list_all analyzes_within_limit (snd (detect_step e st))"
proof (cases e)
  case (HealthSettled out)
  then show ?thesis using assms
    by (simp add: checkBackendHealth_settled_def showError_def current_within_limit_def)
next
  case (ImageSelect files)
  then show ?thesis using assms
    by (simp add: handleImageSelect_def handleImageFile_limit split: list.splits)
next
  case (DropFiles files)
  then show ?thesis using assms
    by (simp add: handleDrop_def handleImageFile_limit split: list.splits)
next
  case ReaderLoaded
  then show ?thesis using assms
    by (simp add: reader_onload_def current_within_limit_def split: list.splits)
next
  case AnalyzeClick
  then show ?thesis using assms
    by (auto simp: analyzeImage_def showError_def current_within_limit_def split: option.splits)
next
  case (AnalyzeSettled out)
  then show ?thesis using assms
    by (cases out)
       (simp_all add: analyzeImage_settled_def displayResults_def updateDiagnosisStyle_def
          showError_def current_within_limit_def Let_def split: list.splits)
next
  case (SaveReportClick d t)
  then show ?thesis using assms
    by (simp add: saveReport_def current_within_limit_def Let_def split: option.splits)
next
  case HistoryClick
  then show ?thesis using assms by (simp add: showHistory_def)
qed

lemma detect_run_limit:
  assumes "current_within_limit st"
  shows "current_within_limit (fst (detect_run evs st)) \<and>
         list_all analyzes_within_limit (snd (detect_run evs st))"
  using assms
proof (induction evs arbitrary: st)
  case Nil
  then show ?case by simp
next
  case (Cons e es)
  note step = detect_step_limit [OF Cons.prems, of e]
  then have "current_within_limit (fst (detect_step e st))" by simp
  from Cons.IH [OF this] step show ?case
    by (simp add: split_beta Let_def)
qed

text \<open>
  C3. A file of more than 10 * 1024 * 1024 bytes is rejected by \<open>handleImageFile\<close>:
  it shows the error, leaves \<open>currentImageFile\<close> as it was and starts no file read.
  And in every run of the page from its load, every request to the analyze endpoint
  carries a file within the limit, so none is ever made with such a file.
\<close>

theorem oversized_image_rejected:
  "(f_size f > 10 * 1024 * 1024 \<longrightarrow>
      handleImageFile f st = showError Image_trop_volumineuse st \<and>
      diseaseDescription (handleImageFile f st) = ErrorText Image_trop_volumineuse \<and>
      currentImageFile (handleImageFile f st) = currentImageFile st \<and>
      reading (handleImageFile f st) = reading st) \<and>
   list_all analyzes_within_limit (snd (detect_run evs (fst (detect_init markup)))) \<and>
   (f_size f > 10 * 1024 * 1024 \<longrightarrow>
      FetchAnalyze f \<notin> set (snd (detect_run evs (fst (detect_init markup)))))"
proof -
  have "current_within_limit (fst (detect_init markup))"
    by (simp add: detect_init_def current_within_limit_def)
  from detect_run_limit [OF this, of evs]
  have all: "list_all analyzes_within_limit (snd (detect_run evs (fst (detect_init markup))))"
    by simp
  have "f_size f > 10 * 1024 * 1024 \<longrightarrow>
      FetchAnalyze f \<notin> set (snd (detect_run evs (fst (detect_init markup))))"
  proof
    assume big: "f_size f > 10 * 1024 * 1024"
    show "FetchAnalyze f \<notin> set (snd (detect_run evs (fst (detect_init markup))))"
    proof
      assume "FetchAnalyze f \<in> set (snd (detect_run evs (fst (detect_init markup))))"
      with all have "analyzes_within_limit (FetchAnalyze f)" by (auto simp: list_all_iff)
      with big show False by (simp add: within_limit_def MAX_IMAGE_SIZE_def)
    qed
  qed
  with all show ?thesis
    by (simp add: handleImageFile_def showError_def MAX_IMAGE_SIZE_def)
qed


theorem oversized_image_rejected_witness:
  "f_size huge_png > 10 * 1024 * 1024 \<and>
   currentImageFile (fst (detect_run [ImageSelect [leaf_jpg], ReaderLoaded, DropFiles [huge_png]]
      (fst (detect_init detect_markup)))) = Some leaf_jpg \<and>
   diseaseDescription (fst (detect_run [ImageSelect [leaf_jpg], ReaderLoaded, DropFiles [huge_png]]
      (fst (detect_init detect_markup)))) = ErrorText Image_trop_volumineuse \<and>
   snd (detect_run [ImageSelect [leaf_jpg], ReaderLoaded, DropFiles [huge_png], AnalyzeClick]
      (fst (detect_init detect_markup))) = [FetchAnalyze leaf_jpg] \<and>
   snd (detect_run [ImageSelect [huge_png], ReaderLoaded, AnalyzeClick]
      (fst (detect_init detect_markup))) = []"
  using oversized_image_rejected [of huge_png "fst (detect_init detect_markup)"
      "[ImageSelect [huge_png], ReaderLoaded, AnalyzeClick]" detect_markup]
  by (simp add: detect_init_def detect_markup_def leaf_jpg_def huge_png_def handleImageSelect_def
      handleDrop_def handleImageFile_def is_image_def S_def MAX_IMAGE_SIZE_def showError_def
      reader_onload_def analyzeImage_def)


text \<open>
  C9. The claim: after a failed health check the analyze button is disabled and
  remains disabled, so that no analyze request can be issued. The \<open>catch\<close> block of
  \<open>checkBackendHealth\<close> disables the button, but the \<open>onload\<close> callback of
  \<open>handleImageFile\<close> enables it again without regard to the health check: after a
  rejected health request, selecting a small image and letting it load leaves the
  button enabled, and a click then posts the image to the analyze endpoint.
\<close>

theorem analyze_enabled_after_failed_health_check:
  "analyzeBtn_disabled (fst (detect_run [HealthSettled HealthRejected]
      (fst (detect_init detect_markup)))) \<and>
   \<not> analyzeBtn_disabled (fst (detect_run
      [HealthSettled HealthRejected, ImageSelect [leaf_jpg], ReaderLoaded]
      (fst (detect_init detect_markup)))) \<and>
   snd (detect_run [HealthSettled HealthRejected, ImageSelect [leaf_jpg], ReaderLoaded, AnalyzeClick]
      (fst (detect_init detect_markup))) = [FetchAnalyze leaf_jpg]"
  by (simp add: detect_init_def detect_markup_def leaf_jpg_def handleImageSelect_def
      handleImageFile_def is_image_def S_def MAX_IMAGE_SIZE_def showError_def
      reader_onload_def analyzeImage_def checkBackendHealth_settled_def health_failed_def)

lemma saveReport_history:
  "stored_history (fst (saveReport d t st)) =
     (case currentImageFile st of
        None \<Rightarrow> stored_history st
      | Some f \<Rightarrow> take 10 (new_report d t f st # stored_history st))"
  by (simp add: saveReport_def stored_history_def Let_def split: option.splits)

lemma detect_step_history:
  assumes "length (stored_history st) \<le> 10"
  shows "length (stored_history (fst (detect_step e st))) \<le> 10"
proof (cases e)
  case (HealthSettled out)
  then show ?thesis using assms
    by (simp add: checkBackendHealth_settled_def showError_def stored_history_def)
next
  case (ImageSelect files)
  then show ?thesis using assms
    by (simp add: handleImageSelect_def handleImageFile_def showError_def stored_history_def
        split: list.splits)
next
  case (DropFiles files)
  then show ?thesis using assms
    by (simp add: handleDrop_def handleImageFile_def showError_def stored_history_def
        split: list.splits)
next
  case ReaderLoaded
  then show ?thesis using assms
    by (simp add: reader_onload_def stored_history_def split: list.splits)
next
  case AnalyzeClick
  then show ?thesis using assms
    by (simp add: analyzeImage_def showError_def stored_history_def split: option.splits)
next
  case (AnalyzeSettled out)
  then show ?thesis using assms
    by (cases out)
       (simp_all add: analyzeImage_settled_def displayResults_def updateDiagnosisStyle_def
          showError_def stored_history_def Let_def split: list.splits)
next
  case (SaveReportClick d t)
  then show ?thesis using assms
    by (simp add: saveReport_history split: option.splits)
next
  case HistoryClick
  then show ?thesis using assms by (simp add: showHistory_def)
qed

lemma detect_run_history:
  assumes "length (stored_history st) \<le> 10"
  shows "length (stored_history (fst (detect_run evs st))) \<le> 10"
  using assms
proof (induction evs arbitrary: st)
  case Nil
  then show ?case by simp
next
  case (Cons e es)
  from Cons.prems have "length (stored_history (fst (detect_step e st))) \<le> 10"
    by (rule detect_step_history)
  from Cons.IH [OF this] show ?case by (simp add: split_beta Let_def)
qed

lemma take_nine_of_ten: "length xs = 10 \<Longrightarrow> take 9 xs = butlast xs"
  by (simp add: butlast_conv_take)

text \<open>
  C5. In every run of the page that starts with at most ten stored reports (none on a
  first visit; the key is written by \<open>saveReport\<close> only), the stored history holds
  at most ten reports after every call of \<open>saveReport\<close>. A call with a current
  image stores the new report in front of the earlier ones and keeps the first ten:
  the report just saved is first, and when ten were stored the oldest, which was
  last, is dropped. A call without a current image changes nothing.
\<close>

theorem saveReport_keeps_ten_latest:
  assumes "length (stored_history st0) \<le> 10"
    and "st = fst (detect_run evs st0)"
    and "st' = fst (saveReport date_text millis st)"
  shows "length (stored_history st') \<le> 10 \<and>
         (case currentImageFile st of
            None \<Rightarrow> st' = st
          | Some f \<Rightarrow>
              stored_history st' = take 10 (new_report date_text millis f st # stored_history st) \<and>
              hd (stored_history st') = new_report date_text millis f st \<and>
              (length (stored_history st) = 10 \<longrightarrow>
                 stored_history st' = new_report date_text millis f st # butlast (stored_history st)))"
proof -
  have cap: "length (stored_history st) \<le> 10"
    unfolding assms(2) using assms(1) by (rule detect_run_history)
  show ?thesis
  proof (cases "currentImageFile st")
    case None
    then show ?thesis using cap by (simp add: assms(3) saveReport_def)
  next
    case (Some f)
    then show ?thesis
      by (simp add: assms(3) saveReport_history take_nine_of_ten)
  qed
qed

theorem saveReport_keeps_ten_latest_witness:
  "length (stored_history (fst (detect_init detect_markup))) \<le> 10 \<and>
   map r_timestamp (stored_history (fst (detect_run
      [ImageSelect [leaf_jpg], SaveReportClick (S ''d'') 1, SaveReportClick (S ''d'') 2, SaveReportClick (S ''d'') 3, SaveReportClick (S ''d'') 4, SaveReportClick (S ''d'') 5, SaveReportClick (S ''d'') 6, SaveReportClick (S ''d'') 7, SaveReportClick (S ''d'') 8, SaveReportClick (S ''d'') 9, SaveReportClick (S ''d'') 10]
      (fst (detect_init detect_markup)))))
     = [10, 9, 8, 7, 6, 5, 4, 3, 2, 1] \<and>
   map r_timestamp (stored_history (fst (saveReport (S ''d'') 11 (fst (detect_run
      [ImageSelect [leaf_jpg], SaveReportClick (S ''d'') 1, SaveReportClick (S ''d'') 2, SaveReportClick (S ''d'') 3, SaveReportClick (S ''d'') 4, SaveReportClick (S ''d'') 5, SaveReportClick (S ''d'') 6, SaveReportClick (S ''d'') 7, SaveReportClick (S ''d'') 8, SaveReportClick (S ''d'') 9, SaveReportClick (S ''d'') 10]
      (fst (detect_init detect_markup)))))))
     = [11, 10, 9, 8, 7, 6, 5, 4, 3, 2]"
  using saveReport_keeps_ten_latest [where ?st0.0 = "fst (detect_init detect_markup)"
      and evs = "[ImageSelect [leaf_jpg], SaveReportClick (S ''d'') 1, SaveReportClick (S ''d'') 2, SaveReportClick (S ''d'') 3, SaveReportClick (S ''d'') 4, SaveReportClick (S ''d'') 5, SaveReportClick (S ''d'') 6, SaveReportClick (S ''d'') 7, SaveReportClick (S ''d'') 8, SaveReportClick (S ''d'') 9, SaveReportClick (S ''d'') 10]"
      and date_text = "S ''d''" and millis = 11, OF _ refl refl]
  by (simp add: detect_init_def detect_markup_def leaf_jpg_def handleImageSelect_def
      handleImageFile_def is_image_def S_def MAX_IMAGE_SIZE_def saveReport_def
      stored_history_def new_report_def Let_def)

subsection \<open>Login and register forms\<close>
















end
